theory Spec2Isabelle
  imports Complex_Main "HOL-Library.Multiset"
begin

section \<open>The median stopping rule of syne-tune\<close>

text \<open>
  A shallow embedding of \<^verbatim>\<open>syne_tune/optimizer/schedulers/median_stopping_rule.py\<close>.
  Python floats are idealised as \<^typ>\<open>real\<close> (no rounding, no NaN). The object
  \<^verbatim>\<open>self\<close> is a record that every method takes and returns updated; an exception is an
  \<open>Inl\<close> outcome, and the state that the method had reached when it raised is returned
  beside it, as the mutations of a Python object survive an exception.
\<close>

subsection \<open>Data\<close>

text \<open>
  A reported result is a dictionary from metric names to numbers. Its keys are
  strings: a dictionary that holds a key which is no string, such as \<open>None\<close>, is
  outside this type.
\<close>

type_synonym Result = "string \<rightharpoonup> real"

text \<open>
  Modelled from the spec: the class \<^verbatim>\<open>Trial\<close> of \<^verbatim>\<open>syne_tune/backend/trial_status.py\<close> is
  imported but not part of the sources at hand; the spec gives it an integer
  \<^verbatim>\<open>trial_id\<close>, which is all the wrapper reads of a trial.
\<close>

record Trial =
  trial_id :: int

text \<open>
  Modelled from the spec: the class \<^verbatim>\<open>SchedulerDecision\<close> of
  \<^verbatim>\<open>syne_tune/optimizer/scheduler.py\<close> is imported but not part of the sources at hand;
  the spec gives the three decisions.
\<close>

datatype SchedulerDecision = CONTINUE | PAUSE | STOP

text \<open>
  \<open>KeyError\<close> is what \<^verbatim>\<open>result[key]\<close> raises on a missing key; \<open>OtherError\<close> stands for
  any other exception a wrapped scheduler may raise.
\<close>

datatype error = KeyError | OtherError

subsection \<open>The wrapped scheduler\<close>

text \<open>
  The wrapped scheduler is any object with the methods of \<^verbatim>\<open>TrialScheduler\<close>. Its code
  is unknown, so it is a record of its private state \<open>sched_state\<close>, of one function per
  method (taking the private state, returning an outcome and the new private state),
  of its attributes \<^verbatim>\<open>config_space\<close> and \<^verbatim>\<open>metric\<close> (\<open>None\<close> when the object has no such
  attribute), and of \<open>sched_calls\<close>, the log of the method calls it has received, oldest
  first. The log is what makes "the wrapped scheduler is not invoked" a statement.
\<close>

datatype call =
    Call_suggest int
  | Call_on_trial_result Trial Result
  | Call_metric_names
  | Call_metric_mode

record ('s, 'a, 'k) TrialScheduler =
  sched_state :: 's
  sched_calls :: "call list"
  sched_config_space :: 'k
  sched_metric :: "string option"
  suggest_impl :: "'s \<Rightarrow> int \<Rightarrow> (error + 'a option) \<times> 's"
  on_trial_result_impl :: "'s \<Rightarrow> Trial \<Rightarrow> Result \<Rightarrow> (error + SchedulerDecision) \<times> 's"
  metric_names_impl :: "'s \<Rightarrow> (error + string list) \<times> 's"
  metric_mode_impl :: "'s \<Rightarrow> (error + string) \<times> 's"

text \<open>Calling a method runs its function on the private state and logs the call.\<close>

definition sched_suggest ::
  "('s, 'a, 'k) TrialScheduler \<Rightarrow> int \<Rightarrow> (error + 'a option) \<times> ('s, 'a, 'k) TrialScheduler" where
  "sched_suggest sch tid =
     (case suggest_impl sch (sched_state sch) tid of
        (out, st) \<Rightarrow> (out, sch\<lparr>sched_state := st, sched_calls := sched_calls sch @ [Call_suggest tid]\<rparr>))"

definition sched_on_trial_result ::
  "('s, 'a, 'k) TrialScheduler \<Rightarrow> Trial \<Rightarrow> Result
     \<Rightarrow> (error + SchedulerDecision) \<times> ('s, 'a, 'k) TrialScheduler" where
  "sched_on_trial_result sch trial result =
     (case on_trial_result_impl sch (sched_state sch) trial result of
        (out, st) \<Rightarrow>
          (out, sch\<lparr>sched_state := st,
                     sched_calls := sched_calls sch @ [Call_on_trial_result trial result]\<rparr>))"

definition sched_metric_names ::
  "('s, 'a, 'k) TrialScheduler \<Rightarrow> (error + string list) \<times> ('s, 'a, 'k) TrialScheduler" where
  "sched_metric_names sch =
     (case metric_names_impl sch (sched_state sch) of
        (out, st) \<Rightarrow> (out, sch\<lparr>sched_state := st, sched_calls := sched_calls sch @ [Call_metric_names]\<rparr>))"

definition sched_metric_mode ::
  "('s, 'a, 'k) TrialScheduler \<Rightarrow> (error + string) \<times> ('s, 'a, 'k) TrialScheduler" where
  "sched_metric_mode sch =
     (case metric_mode_impl sch (sched_state sch) of
        (out, st) \<Rightarrow> (out, sch\<lparr>sched_state := st, sched_calls := sched_calls sch @ [Call_metric_mode]\<rparr>))"

subsection \<open>The numpy operations the wrapper uses\<close>

text \<open>
  \<^verbatim>\<open>np.searchsorted(a, v)\<close> with the default \<^verbatim>\<open>side='left'\<close> is numpy's left bisection:
  \<^verbatim>\<open>
  while (min_idx < max_idx) {
      mid_idx = min_idx + ((max_idx - min_idx) >> 1);
      if (arr[mid_idx] < key) min_idx = mid_idx + 1; else max_idx = mid_idx;
  }
  return min_idx;
  \<close>
  started at \<open>0\<close> and \<open>len(a)\<close>. The read \<open>arr ! mid_idx\<close> is in range whenever
  \<open>max_idx \<le> length arr\<close>.
\<close>

function searchsorted_loop :: "real list \<Rightarrow> real \<Rightarrow> nat \<Rightarrow> nat \<Rightarrow> nat" where
  "searchsorted_loop arr key min_idx max_idx =
     (if min_idx < max_idx then
        (let mid_idx = min_idx + (max_idx - min_idx) div 2 in
         if arr ! mid_idx < key then searchsorted_loop arr key (mid_idx + 1) max_idx
         else searchsorted_loop arr key min_idx mid_idx)
      else min_idx)"
  by pat_completeness auto
termination
  by (relation "measure (\<lambda>(arr, key, min_idx, max_idx). max_idx - min_idx)") auto

declare searchsorted_loop.simps [simp del]

definition np_searchsorted :: "real list \<Rightarrow> real \<Rightarrow> nat" where
  "np_searchsorted a v = searchsorted_loop a v 0 (length a)"

text \<open>
  \<^verbatim>\<open>np.insert(a, index, v)\<close> returns a new array with \<open>v\<close> before position \<open>index\<close>. The
  wrapper calls it with the index \<^verbatim>\<open>searchsorted\<close> returned, which is at most \<open>len(a)\<close>,
  so numpy's IndexError for an index beyond the end is no branch here. The first
  insertion turns the empty Python list into a float array, so no value is truncated.
\<close>

definition np_insert :: "real list \<Rightarrow> nat \<Rightarrow> real \<Rightarrow> real list" where
  "np_insert a index v = take index a @ [v] @ drop index a"

text \<open>\<^verbatim>\<open>np.mean\<close> of a non-empty list.\<close>

definition np_mean :: "real list \<Rightarrow> real" where
  "np_mean xs = sum_list xs / real (length xs)"

text \<open>
  Reading \<^verbatim>\<open>d[k]\<close> in a \<^verbatim>\<open>defaultdict(list)\<close>: the empty list for a key never written.
\<close>

definition dd_get :: "('k \<rightharpoonup> real list) \<Rightarrow> 'k \<Rightarrow> real list" where
  "dd_get d k = (case d k of None \<Rightarrow> [] | Some xs \<Rightarrow> xs)"

subsection \<open>MedianStoppingRule\<close>

text \<open>
  The attributes \<^verbatim>\<open>__init__\<close> sets. \<^verbatim>\<open>trial_to_results\<close> is created only when
  \<^verbatim>\<open>running_average\<close> is true and read only then; here it is always present, and
  stays empty when \<^verbatim>\<open>running_average\<close> is false.
\<close>

record ('s, 'a, 'k) MedianStoppingRule =
  config_space :: 'k
  metric :: "string option"
  sorted_results :: "real \<rightharpoonup> real list"
  scheduler :: "('s, 'a, 'k) TrialScheduler"
  resource_attr :: string
  rank_cutoff :: real
  grace_time :: "int option"
  min_samples_required :: "int option"
  running_average :: bool
  trial_to_results :: "int \<rightharpoonup> real list"
  mode :: string

text \<open>
  \<^verbatim>\<open>__init__\<close> (lines 61 to 84). The only call that can raise is
  \<^verbatim>\<open>scheduler.metric_mode()\<close>; no argument is validated.
\<close>

definition MedianStoppingRule_init ::
  "('s, 'a, 'k) TrialScheduler \<Rightarrow> string \<Rightarrow> bool \<Rightarrow> string option \<Rightarrow> int option \<Rightarrow> int option
     \<Rightarrow> real \<Rightarrow> error + ('s, 'a, 'k) MedianStoppingRule" where
  "MedianStoppingRule_init sch resource_attr' running_average' metric' grace_time'
       grace_population rank_cutoff' =
     (let metric'' = (if metric' = None \<and> sched_metric sch \<noteq> None then sched_metric sch
                      else metric')
      in case sched_metric_mode sch of
           (Inl e, sch') \<Rightarrow> Inl e
         | (Inr m, sch') \<Rightarrow>
             Inr \<lparr>config_space = sched_config_space sch,
                  metric = metric'',
                  sorted_results = Map.empty,
                  scheduler = sch',
                  resource_attr = resource_attr',
                  rank_cutoff = rank_cutoff',
                  grace_time = grace_time',
                  min_samples_required = grace_population,
                  running_average = running_average',
                  trial_to_results = Map.empty,
                  mode = m\<rparr>)"

text \<open>
  \<^verbatim>\<open>_suggest\<close>, \<^verbatim>\<open>metric_names\<close> and \<^verbatim>\<open>metric_mode\<close> (lines 86, 87 and 134 to 138).
  \<^verbatim>\<open>_suggest\<close> is named \<open>suggest\<close> here, as a name cannot start with an underscore.
\<close>

definition suggest ::
  "('s, 'a, 'k) MedianStoppingRule \<Rightarrow> int
     \<Rightarrow> (error + 'a option) \<times> ('s, 'a, 'k) MedianStoppingRule" where
  "suggest self tid =
     (case sched_suggest (scheduler self) tid of (out, sch') \<Rightarrow> (out, self\<lparr>scheduler := sch'\<rparr>))"

definition metric_names ::
  "('s, 'a, 'k) MedianStoppingRule \<Rightarrow> (error + string list) \<times> ('s, 'a, 'k) MedianStoppingRule" where
  "metric_names self =
     (case sched_metric_names (scheduler self) of (out, sch') \<Rightarrow> (out, self\<lparr>scheduler := sch'\<rparr>))"

definition metric_mode ::
  "('s, 'a, 'k) MedianStoppingRule \<Rightarrow> (error + string) \<times> ('s, 'a, 'k) MedianStoppingRule" where
  "metric_mode self =
     (case sched_metric_mode (scheduler self) of (out, sch') \<Rightarrow> (out, self\<lparr>scheduler := sch'\<rparr>))"

text \<open>
  \<^verbatim>\<open>grace_condition\<close> (lines 120 to 132). It reads the sequence of the level as it is
  when called, which in \<^verbatim>\<open>on_trial_result\<close> is after the insertion.
\<close>

definition grace_condition :: "('s, 'a, 'k) MedianStoppingRule \<Rightarrow> real \<Rightarrow> bool" where
  "grace_condition self time_step =
     (if (case min_samples_required self of
            None \<Rightarrow> False
          | Some n \<Rightarrow> int (length (dd_get (sorted_results self) time_step)) < n)
      then True
      else if (case grace_time self of None \<Rightarrow> False | Some g \<Rightarrow> time_step < real_of_int g)
      then True
      else False)"

text \<open>Lines 91 and 92: under mode \<^verbatim>\<open>"max"\<close> the value is negated.\<close>

definition sign_adjust :: "string \<Rightarrow> real \<Rightarrow> real" where
  "sign_adjust mode' new_metric = (if mode' = ''max'' then new_metric * (- 1) else new_metric)"

text \<open>
  Lines 95 to 98: with \<^verbatim>\<open>running_average\<close> the value is appended to the history of the
  trial and replaced by the mean of that history.
\<close>

definition update_running_average ::
  "('s, 'a, 'k) MedianStoppingRule \<Rightarrow> int \<Rightarrow> real \<Rightarrow> real \<times> ('s, 'a, 'k) MedianStoppingRule" where
  "update_running_average self tid new_metric =
     (if running_average self then
        (let history = dd_get (trial_to_results self) tid @ [new_metric]
         in (np_mean history, self\<lparr>trial_to_results := (trial_to_results self)(tid \<mapsto> history)\<rparr>))
      else (new_metric, self))"

text \<open>
  Lines 101 to 105: the value is inserted into the sequence of its resource level at
  the index \<^verbatim>\<open>searchsorted\<close> gives; the result is that index, the normalised rank and
  the new state.
\<close>

definition insert_sorted_result ::
  "('s, 'a, 'k) MedianStoppingRule \<Rightarrow> real \<Rightarrow> real
     \<Rightarrow> nat \<times> real \<times> ('s, 'a, 'k) MedianStoppingRule" where
  "insert_sorted_result self time_step new_metric =
     (let index = np_searchsorted (dd_get (sorted_results self) time_step) new_metric;
          self' = self\<lparr>sorted_results := (sorted_results self)
                    (time_step \<mapsto> np_insert (dd_get (sorted_results self) time_step) index new_metric)\<rparr>;
          normalized_rank = real index / real (length (dd_get (sorted_results self') time_step))
      in (index, normalized_rank, self'))"

text \<open>
  \<^verbatim>\<open>on_trial_result\<close>, lines 90 to 105: the reads of the result, the sign, the running
  average and the insertion. \<^verbatim>\<open>self.metric\<close> may be \<open>None\<close>; the results of this
  model have string keys only, so that read is a missing key here, while a Python
  dictionary holding the key \<open>None\<close> would return its value. Both reads of \<^verbatim>\<open>result\<close> come before the first mutation, so a KeyError
  leaves the state as it was. The values are \<^verbatim>\<open>time_step\<close>, \<^verbatim>\<open>new_metric\<close>, \<^verbatim>\<open>index\<close>,
  \<^verbatim>\<open>normalized_rank\<close> and the state reached.
\<close>

definition record_result ::
  "('s, 'a, 'k) MedianStoppingRule \<Rightarrow> Trial \<Rightarrow> Result
     \<Rightarrow> error + (real \<times> real \<times> nat \<times> real \<times> ('s, 'a, 'k) MedianStoppingRule)" where
  "record_result self trial result =
     (case (case metric self of None \<Rightarrow> None | Some k \<Rightarrow> result k) of
        None \<Rightarrow> Inl KeyError
      | Some raw \<Rightarrow>
          (case result (resource_attr self) of
             None \<Rightarrow> Inl KeyError
           | Some time_step \<Rightarrow>
               (case update_running_average self (trial_id trial) (sign_adjust (mode self) raw) of
                  (new_metric, self1) \<Rightarrow>
                    (case insert_sorted_result self1 time_step new_metric of
                       (index, normalized_rank, self2) \<Rightarrow>
                         Inr (time_step, new_metric, index, normalized_rank, self2)))))"

text \<open>
  \<^verbatim>\<open>on_trial_result\<close> (lines 89 to 118): after the lines above, the decision of lines
  107 to 118. The log message of the STOP branch has no effect on the state.
\<close>

definition on_trial_result ::
  "('s, 'a, 'k) MedianStoppingRule \<Rightarrow> Trial \<Rightarrow> Result
     \<Rightarrow> (error + SchedulerDecision) \<times> ('s, 'a, 'k) MedianStoppingRule" where
  "on_trial_result self trial result =
     (case record_result self trial result of
        Inl e \<Rightarrow> (Inl e, self)
      | Inr (time_step, new_metric, index, normalized_rank, self2) \<Rightarrow>
          if grace_condition self2 time_step \<or> normalized_rank \<le> rank_cutoff self2
          then (case sched_on_trial_result (scheduler self2) trial result of
                  (out, sch') \<Rightarrow> (out, self2\<lparr>scheduler := sch'\<rparr>))
          else (Inr STOP, self2))"

text \<open>A run: the state after a sequence of reports, whatever each call returned.\<close>

fun run ::
  "('s, 'a, 'k) MedianStoppingRule \<Rightarrow> (Trial \<times> Result) list \<Rightarrow> ('s, 'a, 'k) MedianStoppingRule" where
  "run self [] = self"
| "run self ((trial, result) # rest) = run (snd (on_trial_result self trial result)) rest"

text \<open>
  The values a run inserts at a resource level, in the order of the calls: one value
  for each call that reaches the insertion with that level.
\<close>

fun inserted_values ::
  "('s, 'a, 'k) MedianStoppingRule \<Rightarrow> real \<Rightarrow> (Trial \<times> Result) list \<Rightarrow> real list" where
  "inserted_values self level [] = []"
| "inserted_values self level ((trial, result) # rest) =
     (case record_result self trial result of
        Inl e \<Rightarrow> []
      | Inr (time_step, new_metric, index, normalized_rank, self2) \<Rightarrow>
          if time_step = level then [new_metric] else [])
     @ inserted_values (snd (on_trial_result self trial result)) level rest"

text \<open>
  The sign-adjusted raw values a trial has reported, in report order: one for each
  call of that trial whose result holds both the metric and the resource key.
\<close>

definition own_report ::
  "('s, 'a, 'k) MedianStoppingRule \<Rightarrow> int \<Rightarrow> Trial \<times> Result \<Rightarrow> real option" where
  "own_report self tid report =
     (case metric self of
        None \<Rightarrow> None
      | Some k \<Rightarrow>
          (case (snd report) k of
             None \<Rightarrow> None
           | Some raw \<Rightarrow>
               if snd report (resource_attr self) \<noteq> None \<and> trial_id (fst report) = tid
               then Some (sign_adjust (mode self) raw) else None))"

definition own_reports ::
  "('s, 'a, 'k) MedianStoppingRule \<Rightarrow> int \<Rightarrow> (Trial \<times> Result) list \<Rightarrow> real list" where
  "own_reports self tid reports = List.map_filter (own_report self tid) reports"

text \<open>
  What a call did, read off its effect: it raised before deciding, it delegated (the
  wrapped scheduler received a call), or it stopped the trial itself.
\<close>

datatype verdict = Raised | Delegated | Stopped

definition verdict_of :: "('s, 'a, 'k) MedianStoppingRule \<Rightarrow> Trial \<Rightarrow> Result \<Rightarrow> verdict" where
  "verdict_of self trial result =
     (case on_trial_result self trial result of
        (out, self') \<Rightarrow>
          if length (sched_calls (scheduler self)) < length (sched_calls (scheduler self'))
          then Delegated
          else (case out of Inl e \<Rightarrow> Raised | Inr d \<Rightarrow> Stopped))"


subsection \<open>A wrapped scheduler for the examples\<close>

text \<open>
  A scheduler without a \<^verbatim>\<open>metric\<close> attribute that counts the results it is given and
  always continues.
\<close>

definition example_scheduler :: "string \<Rightarrow> (nat, unit, unit) TrialScheduler" where
  "example_scheduler m =
     \<lparr>sched_state = 0,
      sched_calls = [],
      sched_config_space = (),
      sched_metric = None,
      suggest_impl = (\<lambda>st tid. (Inr None, st)),
      on_trial_result_impl = (\<lambda>st trial result. (Inr CONTINUE, Suc st)),
      metric_names_impl = (\<lambda>st. (Inr [], st)),
      metric_mode_impl = (\<lambda>st. (Inr m, st))\<rparr>"

text \<open>
  A state of the wrapper holding what the scenario of the spec records: five trials
  have each reported the value 10 at resource level 2.
\<close>

definition example_state :: "(nat, unit, unit) MedianStoppingRule" where
  "example_state =
     \<lparr>config_space = (),
      metric = Some ''loss'',
      sorted_results = [2 \<mapsto> [10, 10, 10, 10, 10]],
      scheduler = example_scheduler ''min'',
      resource_attr = ''epoch'',
      rank_cutoff = 1 / 2,
      grace_time = Some 1,
      min_samples_required = Some 5,
      running_average = True,
      trial_to_results = [1 \<mapsto> [10], 2 \<mapsto> [10], 3 \<mapsto> [10], 4 \<mapsto> [10], 5 \<mapsto> [10]],
      mode = ''min''\<rparr>"

text \<open>The wrapper as the constructor returns it around the example scheduler.\<close>

definition example_initial :: "string \<Rightarrow> bool \<Rightarrow> (nat, unit, unit) MedianStoppingRule" where
  "example_initial m b =
     \<lparr>config_space = (),
      metric = Some ''loss'',
      sorted_results = Map.empty,
      scheduler = (example_scheduler m)\<lparr>sched_calls := [Call_metric_mode]\<rparr>,
      resource_attr = ''epoch'',
      rank_cutoff = 1 / 2,
      grace_time = Some 1,
      min_samples_required = Some 5,
      running_average = b,
      trial_to_results = Map.empty,
      mode = m\<rparr>"

text \<open>Reports of three trials at two resource levels.\<close>

definition example_reports :: "(Trial \<times> Result) list" where
  "example_reports =
     [(\<lparr>trial_id = 1\<rparr>, [''loss'' \<mapsto> 3, ''epoch'' \<mapsto> 2]),
      (\<lparr>trial_id = 2\<rparr>, [''loss'' \<mapsto> 1, ''epoch'' \<mapsto> 2]),
      (\<lparr>trial_id = 1\<rparr>, [''loss'' \<mapsto> 2, ''epoch'' \<mapsto> 3]),
      (\<lparr>trial_id = 3\<rparr>, [''epoch'' \<mapsto> 2])]"


text \<open>
  A state under mode \<^verbatim>\<open>"max"\<close> without running average: three trials have reported
  the accuracies 3, 2 and 1 at level 2, recorded negated.
\<close>

definition example_max_state :: "(nat, unit, unit) MedianStoppingRule" where
  "example_max_state =
     \<lparr>config_space = (),
      metric = Some ''accuracy'',
      sorted_results = [2 \<mapsto> [- 3, - 2, - 1]],
      scheduler = example_scheduler ''max'',
      resource_attr = ''epoch'',
      rank_cutoff = 1 / 2,
      grace_time = Some 1,
      min_samples_required = Some 5,
      running_average = False,
      trial_to_results = Map.empty,
      mode = ''max''\<rparr>"

text \<open>
  The scenario of the spec: trials 1 to 5 each report the value 10 at resource
  level 2, as their first report.
\<close>

definition scenario_reports :: "(Trial \<times> Result) list" where
  "scenario_reports =
     map (\<lambda>i. (\<lparr>trial_id = int i\<rparr>, [''loss'' \<mapsto> 10, ''epoch'' \<mapsto> 2])) [1..<6]"

subsection \<open>Binary search and sorted insertion\<close>

lemma searchsorted_loop_left:
  "min_idx < max_idx \<Longrightarrow> arr ! (min_idx + (max_idx - min_idx) div 2) < key \<Longrightarrow>
     searchsorted_loop arr key min_idx max_idx =
     searchsorted_loop arr key (min_idx + (max_idx - min_idx) div 2 + 1) max_idx"
  by (subst searchsorted_loop.simps) (simp add: Let_def)

lemma searchsorted_loop_right:
  "min_idx < max_idx \<Longrightarrow> \<not> arr ! (min_idx + (max_idx - min_idx) div 2) < key \<Longrightarrow>
     searchsorted_loop arr key min_idx max_idx =
     searchsorted_loop arr key min_idx (min_idx + (max_idx - min_idx) div 2)"
  by (subst searchsorted_loop.simps) (simp add: Let_def)

lemma searchsorted_loop_done:
  "\<not> min_idx < max_idx \<Longrightarrow> searchsorted_loop arr key min_idx max_idx = min_idx"
  by (subst searchsorted_loop.simps) simp

text \<open>
  The loop invariant of the bisection on a sorted array: everything left of
  \<open>min_idx\<close> is below the key, everything from \<open>max_idx\<close> on is not.
\<close>

lemma searchsorted_loop_correct:
  assumes "sorted arr" and "lo \<le> hi" and "hi \<le> length arr"
    and "\<forall>i<lo. arr ! i < key"
    and "\<forall>i. hi \<le> i \<and> i < length arr \<longrightarrow> key \<le> arr ! i"
  shows "lo \<le> searchsorted_loop arr key lo hi \<and> searchsorted_loop arr key lo hi \<le> hi
         \<and> (\<forall>i<searchsorted_loop arr key lo hi. arr ! i < key)
         \<and> (\<forall>i. searchsorted_loop arr key lo hi \<le> i \<and> i < length arr \<longrightarrow> key \<le> arr ! i)"
  using assms
proof (induction arr key lo hi rule: searchsorted_loop.induct)
  case (1 arr key min_idx max_idx)
  show ?case
  proof (cases "min_idx < max_idx")
    case False
    then have "searchsorted_loop arr key min_idx max_idx = min_idx"
      by (rule searchsorted_loop_done)
    moreover have "min_idx = max_idx" using False "1.prems"(2) by simp
    ultimately show ?thesis using "1.prems" by simp
  next
    case True
    define mid where "mid = min_idx + (max_idx - min_idx) div 2"
    have mid: "min_idx \<le> mid" "mid < max_idx" "mid < length arr"
      using True "1.prems"(3) by (auto simp: mid_def)
    show ?thesis
    proof (cases "arr ! mid < key")
      case lt: True
      have eq: "searchsorted_loop arr key min_idx max_idx
                = searchsorted_loop arr key (mid + 1) max_idx"
        using searchsorted_loop_left [OF True] lt by (simp add: mid_def)
      have below: "\<forall>i<mid + 1. arr ! i < key"
      proof (intro allI impI)
        fix i assume "i < mid + 1"
        then have "arr ! i \<le> arr ! mid"
          using \<open>sorted arr\<close> mid(3) by (simp add: sorted_nth_mono)
        with lt show "arr ! i < key" by simp
      qed
      have "mid + 1 \<le> searchsorted_loop arr key (mid + 1) max_idx
            \<and> searchsorted_loop arr key (mid + 1) max_idx \<le> max_idx
            \<and> (\<forall>i<searchsorted_loop arr key (mid + 1) max_idx. arr ! i < key)
            \<and> (\<forall>i. searchsorted_loop arr key (mid + 1) max_idx \<le> i \<and> i < length arr
                   \<longrightarrow> key \<le> arr ! i)"
        using "1.IH"(1) [OF True mid_def lt \<open>sorted arr\<close> _ \<open>max_idx \<le> length arr\<close> below]
          mid "1.prems"(5) by simp
      then show ?thesis unfolding eq using mid by simp
    next
      case ge: False
      have eq: "searchsorted_loop arr key min_idx max_idx
                = searchsorted_loop arr key min_idx mid"
        using searchsorted_loop_right [OF True] ge by (simp add: mid_def)
      have above: "\<forall>i. mid \<le> i \<and> i < length arr \<longrightarrow> key \<le> arr ! i"
      proof (intro allI impI)
        fix i assume "mid \<le> i \<and> i < length arr"
        then have "arr ! mid \<le> arr ! i"
          using \<open>sorted arr\<close> by (simp add: sorted_nth_mono)
        with ge show "key \<le> arr ! i" by simp
      qed
      have "min_idx \<le> searchsorted_loop arr key min_idx mid
            \<and> searchsorted_loop arr key min_idx mid \<le> mid
            \<and> (\<forall>i<searchsorted_loop arr key min_idx mid. arr ! i < key)
            \<and> (\<forall>i. searchsorted_loop arr key min_idx mid \<le> i \<and> i < length arr
                   \<longrightarrow> key \<le> arr ! i)"
        using "1.IH"(2) [OF True mid_def ge \<open>sorted arr\<close> mid(1) _ "1.prems"(4) above]
          mid by simp
      then show ?thesis unfolding eq using mid by simp
    qed
  qed
qed

lemma np_searchsorted_correct:
  assumes "sorted a"
  shows "np_searchsorted a v \<le> length a
         \<and> (\<forall>i<np_searchsorted a v. a ! i < v)
         \<and> (\<forall>i. np_searchsorted a v \<le> i \<and> i < length a \<longrightarrow> v \<le> a ! i)"
  using searchsorted_loop_correct [OF assms, of 0 "length a" v]
  by (simp add: np_searchsorted_def)

lemma set_take_below:
  "sorted a \<Longrightarrow> x \<in> set (take (np_searchsorted a v) a) \<Longrightarrow> x < v"
  using np_searchsorted_correct [of a v] by (auto simp: in_set_conv_nth)

lemma set_drop_above:
  "sorted a \<Longrightarrow> x \<in> set (drop (np_searchsorted a v) a) \<Longrightarrow> v \<le> x"
  using np_searchsorted_correct [of a v] by (auto simp: in_set_conv_nth)

lemma sorted_np_insert:
  assumes "sorted a"
  shows "sorted (np_insert a (np_searchsorted a v) v)"
proof -
  let ?r = "np_searchsorted a v"
  have lo: "\<forall>x\<in>set (take ?r a). x \<le> v"
    using set_take_below [OF assms] by (auto intro: less_imp_le)
  have hi: "\<forall>y\<in>set (drop ?r a). v \<le> y"
    using set_drop_above [OF assms] by auto
  have "\<forall>x\<in>set (take ?r a). \<forall>y\<in>set (drop ?r a). x \<le> y"
    using lo hi by (meson order_trans)
  with lo hi assms show ?thesis
    by (simp add: np_insert_def sorted_append sorted_wrt_take sorted_wrt_drop)
qed

lemma mset_np_insert: "mset (np_insert a i v) = add_mset v (mset a)"
proof -
  have "mset (take i a) + mset (drop i a) = mset a"
    by (metis append_take_drop_id mset_append)
  then show ?thesis by (simp add: np_insert_def)
qed

lemma length_np_insert: "length (np_insert a i v) = Suc (length a)"
  by (metis mset_np_insert size_mset size_add_mset)

lemma np_searchsorted_count:
  assumes "sorted a"
  shows "np_searchsorted a v = length (filter (\<lambda>x. x < v) a)"
proof -
  let ?r = "np_searchsorted a v"
  have r: "?r \<le> length a" using np_searchsorted_correct [OF assms] by simp
  have "filter (\<lambda>x. x < v) a = filter (\<lambda>x. x < v) (take ?r a) @ filter (\<lambda>x. x < v) (drop ?r a)"
    by (metis append_take_drop_id filter_append)
  moreover have "filter (\<lambda>x. x < v) (take ?r a) = take ?r a"
    using set_take_below [OF assms] by (simp add: filter_id_conv)
  moreover have "filter (\<lambda>x. x < v) (drop ?r a) = []"
  proof -
    have "\<forall>x\<in>set (drop ?r a). \<not> x < v"
      using set_drop_above [OF assms, of _ v] by (auto simp: not_less)
    then show ?thesis by (simp add: filter_empty_conv)
  qed
  ultimately show ?thesis using r by simp
qed

subsection \<open>What one call does\<close>

lemma record_result_Inr:
  assumes "record_result self trial result = Inr (t, v, i, r, s2)"
  shows "\<exists>k raw. metric self = Some k \<and> result k = Some raw
           \<and> v = (if running_average self
                  then np_mean (dd_get (trial_to_results self) (trial_id trial)
                                @ [sign_adjust (mode self) raw])
                  else sign_adjust (mode self) raw)
           \<and> s2 = self\<lparr>sorted_results := (sorted_results self)
                          (t \<mapsto> np_insert (dd_get (sorted_results self) t) i v),
                        trial_to_results :=
                          (if running_average self
                           then (trial_to_results self)(trial_id trial \<mapsto>
                                  dd_get (trial_to_results self) (trial_id trial)
                                  @ [sign_adjust (mode self) raw])
                           else trial_to_results self)\<rparr>"
    and "result (resource_attr self) = Some t"
    and "i = np_searchsorted (dd_get (sorted_results self) t) v"
    and "r = real i / real (Suc (length (dd_get (sorted_results self) t)))"
  using assms
  by (auto simp: record_result_def update_running_average_def insert_sorted_result_def
      Let_def dd_get_def length_np_insert split: option.splits if_splits)

lemma record_result_frame:
  assumes "record_result self trial result = Inr (t, v, i, r, s2)"
  shows "scheduler s2 = scheduler self" "metric s2 = metric self" "mode s2 = mode self"
    "resource_attr s2 = resource_attr self" "rank_cutoff s2 = rank_cutoff self"
    "grace_time s2 = grace_time self" "min_samples_required s2 = min_samples_required self"
    "running_average s2 = running_average self" "config_space s2 = config_space self"
  using record_result_Inr(1) [OF assms] by auto

lemma record_result_sorted_results:
  assumes "record_result self trial result = Inr (t, v, i, r, s2)"
  shows "dd_get (sorted_results s2) level =
           (if level = t then np_insert (dd_get (sorted_results self) t)
                                (np_searchsorted (dd_get (sorted_results self) t) v) v
            else dd_get (sorted_results self) level)"
  using record_result_Inr [OF assms] by (auto simp: dd_get_def)



lemma record_result_eq:
  assumes "metric self = Some k" and "result k = Some raw"
    and "result (resource_attr self) = Some t"
  shows "record_result self trial result =
           (let adj = sign_adjust (mode self) raw;
                history = dd_get (trial_to_results self) (trial_id trial) @ [adj];
                v = (if running_average self then np_mean history else adj);
                old = dd_get (sorted_results self) t;
                i = np_searchsorted old v
            in Inr (t, v, i, real i / real (Suc (length old)),
                    self\<lparr>sorted_results := (sorted_results self)(t \<mapsto> np_insert old i v),
                         trial_to_results :=
                           (if running_average self
                            then (trial_to_results self)(trial_id trial \<mapsto> history)
                            else trial_to_results self)\<rparr>))"
  using assms
  by (simp add: record_result_def update_running_average_def insert_sorted_result_def
      Let_def dd_get_def length_np_insert)

lemma searchsorted_example_last: "np_searchsorted [10, 10, 10, 10, 10] 20 = 5"
  by (simp add: np_searchsorted_def searchsorted_loop.simps)

lemma searchsorted_example_first: "np_searchsorted [10, 10, 10, 10, 10] 5 = 0"
  by (simp add: np_searchsorted_def searchsorted_loop.simps)

lemma on_trial_result_Inl:
  "record_result self trial result = Inl e \<Longrightarrow> on_trial_result self trial result = (Inl e, self)"
  by (simp add: on_trial_result_def)

lemma on_trial_result_delegates:
  assumes "record_result self trial result = Inr (t, v, i, r, s2)"
    and "grace_condition s2 t \<or> r \<le> rank_cutoff self"
  shows "on_trial_result self trial result =
           (fst (sched_on_trial_result (scheduler self) trial result),
            s2\<lparr>scheduler := snd (sched_on_trial_result (scheduler self) trial result)\<rparr>)"
  using assms record_result_frame [OF assms(1)]
  by (simp add: on_trial_result_def case_prod_unfold)

lemma on_trial_result_stops:
  assumes "record_result self trial result = Inr (t, v, i, r, s2)"
    and "\<not> grace_condition s2 t" and "\<not> r \<le> rank_cutoff self"
  shows "on_trial_result self trial result = (Inr STOP, s2)"
  using assms record_result_frame [OF assms(1)]
  by (simp add: on_trial_result_def)

lemma example_record_stop:
  "record_result example_state \<lparr>trial_id = 6\<rparr> [''loss'' \<mapsto> 20, ''epoch'' \<mapsto> 2]
     = Inr (2, 20, 5, 5 / 6,
            example_state\<lparr>sorted_results := [2 \<mapsto> [10, 10, 10, 10, 10, 20]],
                          trial_to_results := (trial_to_results example_state)(6 \<mapsto> [20])\<rparr>)"
  by (subst record_result_eq [where k = "''loss''" and raw = 20 and t = 2])
     (simp_all add: example_state_def sign_adjust_def dd_get_def np_mean_def
       searchsorted_example_last np_insert_def)

lemma example_record_continue:
  "record_result example_state \<lparr>trial_id = 6\<rparr> [''loss'' \<mapsto> 5, ''epoch'' \<mapsto> 2]
     = Inr (2, 5, 0, 0,
            example_state\<lparr>sorted_results := [2 \<mapsto> [5, 10, 10, 10, 10, 10]],
                          trial_to_results := (trial_to_results example_state)(6 \<mapsto> [5])\<rparr>)"
  by (subst record_result_eq [where k = "''loss''" and raw = 5 and t = 2])
     (simp_all add: example_state_def sign_adjust_def dd_get_def np_mean_def
       searchsorted_example_first np_insert_def)

lemma example_on_trial_result_continue:
  "on_trial_result example_state \<lparr>trial_id = 6\<rparr> [''loss'' \<mapsto> 5, ''epoch'' \<mapsto> 2]
     = (Inr CONTINUE,
        example_state\<lparr>sorted_results := [2 \<mapsto> [5, 10, 10, 10, 10, 10]],
                      trial_to_results := (trial_to_results example_state)(6 \<mapsto> [5]),
                      scheduler := (example_scheduler ''min'')
                        \<lparr>sched_state := 1,
                         sched_calls := [Call_on_trial_result \<lparr>trial_id = 6\<rparr>
                                           [''loss'' \<mapsto> 5, ''epoch'' \<mapsto> 2]]\<rparr>\<rparr>)"
  by (simp add: on_trial_result_def example_record_continue grace_condition_def dd_get_def)
     (simp add: example_state_def sched_on_trial_result_def example_scheduler_def)

lemma example_on_trial_result_stop:
  "on_trial_result example_state \<lparr>trial_id = 6\<rparr> [''loss'' \<mapsto> 20, ''epoch'' \<mapsto> 2]
     = (Inr STOP,
        example_state\<lparr>sorted_results := [2 \<mapsto> [10, 10, 10, 10, 10, 20]],
                      trial_to_results := (trial_to_results example_state)(6 \<mapsto> [20])\<rparr>)"
  by (simp add: on_trial_result_def example_record_stop grace_condition_def)
     (simp add: example_state_def dd_get_def)

subsection \<open>The decision\<close>

text \<open>
  Claim C1. A call of \<^verbatim>\<open>on_trial_result\<close> that reaches the decision (the result holds
  the metric and the resource key) returns what the wrapped scheduler's
  \<^verbatim>\<open>on_trial_result\<close> returns, called on the same trial and result, when fewer than
  \<^verbatim>\<open>grace_population\<close> values are in the sequence of the reported level (counted after
  the insertion), or the level is below \<^verbatim>\<open>grace_time\<close>, or the normalised rank is at
  most \<^verbatim>\<open>rank_cutoff\<close>. Otherwise it returns STOP and the wrapped scheduler is left as it
  was, its call log included: it is not invoked.
\<close>

theorem on_trial_result_decision:
  assumes "record_result self trial result
             = Inr (time_step, new_metric, index, normalized_rank, self2)"
  shows "on_trial_result self trial result =
           (if (case min_samples_required self of
                  None \<Rightarrow> False
                | Some n \<Rightarrow> int (length (dd_get (sorted_results self2) time_step)) < n)
               \<or> (case grace_time self of None \<Rightarrow> False | Some g \<Rightarrow> time_step < real_of_int g)
               \<or> normalized_rank \<le> rank_cutoff self
            then (fst (sched_on_trial_result (scheduler self) trial result),
                  self2\<lparr>scheduler := snd (sched_on_trial_result (scheduler self) trial result)\<rparr>)
            else (Inr STOP, self2))
         \<and> scheduler self2 = scheduler self"
  using assms record_result_frame [OF assms]
  by (auto simp: on_trial_result_def grace_condition_def case_prod_unfold split: option.splits)


theorem on_trial_result_decision_witness:
  "on_trial_result example_state \<lparr>trial_id = 6\<rparr> [''loss'' \<mapsto> 20, ''epoch'' \<mapsto> 2]
     = (Inr STOP,
        example_state\<lparr>sorted_results := [2 \<mapsto> [10, 10, 10, 10, 10, 20]],
                      trial_to_results := (trial_to_results example_state)(6 \<mapsto> [20])\<rparr>)
   \<and> fst (on_trial_result example_state \<lparr>trial_id = 6\<rparr> [''loss'' \<mapsto> 5, ''epoch'' \<mapsto> 2])
     = Inr CONTINUE"
  using on_trial_result_decision [OF example_record_stop]
    on_trial_result_decision [OF example_record_continue]
  by (simp add: example_state_def dd_get_def sched_on_trial_result_def example_scheduler_def)

subsection \<open>The calls that pass through\<close>

text \<open>
  Claim C6. \<^verbatim>\<open>_suggest\<close>, \<^verbatim>\<open>metric_names\<close> and \<^verbatim>\<open>metric_mode\<close> of the wrapper return, for
  every trial id and every state of the wrapped scheduler, exactly what the wrapped
  scheduler's method returns, and change nothing of the wrapper but the wrapped
  scheduler, which has received that one call.
\<close>

theorem wrapper_passes_through:
  "suggest self tid =
     (fst (suggest_impl (scheduler self) (sched_state (scheduler self)) tid),
      self\<lparr>scheduler := snd (sched_suggest (scheduler self) tid)\<rparr>)
   \<and> metric_names self =
     (fst (metric_names_impl (scheduler self) (sched_state (scheduler self))),
      self\<lparr>scheduler := snd (sched_metric_names (scheduler self))\<rparr>)
   \<and> metric_mode self =
     (fst (metric_mode_impl (scheduler self) (sched_state (scheduler self))),
      self\<lparr>scheduler := snd (sched_metric_mode (scheduler self))\<rparr>)
   \<and> fst (suggest self tid) = fst (sched_suggest (scheduler self) tid)
   \<and> fst (metric_names self) = fst (sched_metric_names (scheduler self))
   \<and> fst (metric_mode self) = fst (sched_metric_mode (scheduler self))"
  by (simp add: suggest_def metric_names_def metric_mode_def sched_suggest_def
      sched_metric_names_def sched_metric_mode_def case_prod_unfold)

subsection \<open>Construction\<close>

lemma init_Inr:
  assumes "sched_metric_mode sch = (Inr m, sch')"
  shows "MedianStoppingRule_init sch ra b mt gt gp rc =
           Inr \<lparr>config_space = sched_config_space sch,
                metric = (case mt of None \<Rightarrow> sched_metric sch | Some k \<Rightarrow> Some k),
                sorted_results = Map.empty,
                scheduler = sch',
                resource_attr = ra,
                rank_cutoff = rc,
                grace_time = gt,
                min_samples_required = gp,
                running_average = b,
                trial_to_results = Map.empty,
                mode = m\<rparr>"
  using assms by (auto simp: MedianStoppingRule_init_def Let_def split: option.splits)

lemma init_Inl:
  assumes "sched_metric_mode sch = (Inl e, sch')"
  shows "MedianStoppingRule_init sch ra b mt gt gp rc = Inl e"
  using assms by (simp add: MedianStoppingRule_init_def Let_def)

lemma example_metric_mode:
  "sched_metric_mode (example_scheduler m) =
     (Inr m, (example_scheduler m)\<lparr>sched_calls := [Call_metric_mode]\<rparr>)"
  by (simp add: sched_metric_mode_def example_scheduler_def)

lemma example_metric_mode_accuracy:
  "sched_metric_mode ((example_scheduler m)\<lparr>sched_metric := Some ''accuracy''\<rparr>) =
     (Inr m, (example_scheduler m)\<lparr>sched_metric := Some ''accuracy'',
                                   sched_calls := [Call_metric_mode]\<rparr>)"
  by (simp add: sched_metric_mode_def example_scheduler_def)

text \<open>
  Claim C7, as the spec states it, asks for a configuration error when the metric
  name cannot be resolved. The constructor raises none: with \<^verbatim>\<open>metric=None\<close> and a
  wrapped scheduler without a \<^verbatim>\<open>metric\<close> attribute it returns a wrapper whose metric is
  \<open>None\<close>.
\<close>

theorem init_unresolved_metric_counterexample:
  "\<not> isl (MedianStoppingRule_init (example_scheduler ''max'') ''epoch'' True None
            (Some 1) (Some 5) (1 / 2))
   \<and> metric (projr (MedianStoppingRule_init (example_scheduler ''max'') ''epoch'' True None
                     (Some 1) (Some 5) (1 / 2))) = None"
  by (simp add: init_Inr [OF example_metric_mode]) (simp add: example_scheduler_def)

text \<open>
  Claim C7, amended. When the wrapped scheduler's \<^verbatim>\<open>metric_mode\<close> returns, construction
  succeeds; an explicit metric is kept, and with \<^verbatim>\<open>metric=None\<close> the metric is the
  wrapped scheduler's \<^verbatim>\<open>metric\<close> attribute when it has one and stays \<open>None\<close> otherwise.
  No configuration error is raised at construction.
\<close>

theorem init_metric:
  assumes "sched_metric_mode sch = (Inr m, sch')"
  shows "\<exists>self. MedianStoppingRule_init sch ra b mt gt gp rc = Inr self
           \<and> metric self = (case mt of None \<Rightarrow> sched_metric sch | Some k \<Rightarrow> Some k)"
  by (simp add: init_Inr [OF assms])

theorem init_metric_witness:
  "(\<exists>self. MedianStoppingRule_init ((example_scheduler ''max'')\<lparr>sched_metric := Some ''accuracy''\<rparr>)
             ''epoch'' True None (Some 1) (Some 5) (1 / 2) = Inr self
          \<and> metric self = Some ''accuracy'')
   \<and> (\<exists>self. MedianStoppingRule_init (example_scheduler ''max'')
             ''epoch'' True None (Some 1) (Some 5) (1 / 2) = Inr self
          \<and> metric self = None)"
  using init_metric [OF example_metric_mode_accuracy, of "''max''" "''epoch''" True None "Some 1" "Some 5" "1 / 2"]
    init_metric [OF example_metric_mode, of "''max''" "''epoch''" True None "Some 1" "Some 5" "1 / 2"]
  by (auto simp: example_scheduler_def)

text \<open>
  Claim C8, as the spec states it, asks for a configuration error when \<^verbatim>\<open>rank_cutoff\<close>
  is outside \<open>(0, 1]\<close>. The constructor accepts the value \<open>2\<close> and stores it.
\<close>

theorem init_rank_cutoff_counterexample:
  "\<not> isl (MedianStoppingRule_init (example_scheduler ''min'') ''epoch'' True (Some ''loss'')
            (Some 1) (Some 5) 2)
   \<and> rank_cutoff (projr (MedianStoppingRule_init (example_scheduler ''min'') ''epoch'' True
                          (Some ''loss'') (Some 1) (Some 5) 2)) = 2"
  by (simp add: init_Inr [OF example_metric_mode])

text \<open>
  Claim C8, amended. The constructor does not validate \<^verbatim>\<open>rank_cutoff\<close>: when the
  wrapped scheduler's \<^verbatim>\<open>metric_mode\<close> returns, construction succeeds for every value
  and stores it unchanged.
\<close>

theorem init_rank_cutoff:
  assumes "sched_metric_mode sch = (Inr m, sch')"
  shows "\<exists>self. MedianStoppingRule_init sch ra b mt gt gp rc = Inr self \<and> rank_cutoff self = rc"
  by (simp add: init_Inr [OF assms])

theorem init_rank_cutoff_witness:
  "\<exists>self. MedianStoppingRule_init (example_scheduler ''min'') ''epoch'' True (Some ''loss'')
            (Some 1) (Some 5) (- 3) = Inr self \<and> rank_cutoff self = - 3"
  using init_rank_cutoff [OF example_metric_mode, of "''min''" "''epoch''" True "Some ''loss''" "Some 1" "Some 5" "- 3"]
  by simp

subsection \<open>What the wrapped scheduler is given\<close>

text \<open>
  Claim C10. When a call of \<^verbatim>\<open>on_trial_result\<close> delegates, the wrapped scheduler's
  \<^verbatim>\<open>on_trial_result\<close> is called once, with the trial and the result mapping the
  wrapper received, unchanged: the negation under mode \<^verbatim>\<open>"max"\<close> and the running
  average touch only the wrapper's local value.
\<close>

theorem delegation_passes_result:
  assumes "verdict_of self trial result = Delegated"
  shows "sched_calls (scheduler (snd (on_trial_result self trial result)))
           = sched_calls (scheduler self) @ [Call_on_trial_result trial result]
         \<and> fst (on_trial_result self trial result)
           = fst (on_trial_result_impl (scheduler self) (sched_state (scheduler self)) trial result)
         \<and> sched_state (scheduler (snd (on_trial_result self trial result)))
           = snd (on_trial_result_impl (scheduler self) (sched_state (scheduler self)) trial result)"
proof (cases "record_result self trial result")
  case (Inl e)
  then have "verdict_of self trial result = Raised"
    by (simp add: verdict_of_def on_trial_result_Inl)
  with assms show ?thesis by simp
next
  case (Inr p)
  obtain t v i r s2 where p: "p = (t, v, i, r, s2)" by (cases p) auto
  note rec = Inr [unfolded p]
  note frame = record_result_frame [OF rec]
  show ?thesis
  proof (cases "grace_condition s2 t \<or> r \<le> rank_cutoff s2")
    case True
    then show ?thesis
      using rec frame
      by (simp add: on_trial_result_def sched_on_trial_result_def case_prod_unfold)
  next
    case False
    then have "on_trial_result self trial result = (Inr STOP, s2)"
      using rec by (simp add: on_trial_result_def)
    then have "verdict_of self trial result = Stopped"
      using frame by (simp add: verdict_of_def)
    with assms show ?thesis by simp
  qed
qed

theorem delegation_passes_result_witness:
  "verdict_of example_state \<lparr>trial_id = 6\<rparr> [''loss'' \<mapsto> 5, ''epoch'' \<mapsto> 2] = Delegated
   \<and> sched_calls (scheduler (snd (on_trial_result example_state \<lparr>trial_id = 6\<rparr>
                                     [''loss'' \<mapsto> 5, ''epoch'' \<mapsto> 2])))
     = [Call_on_trial_result \<lparr>trial_id = 6\<rparr> [''loss'' \<mapsto> 5, ''epoch'' \<mapsto> 2]]"
proof -
  have v: "verdict_of example_state \<lparr>trial_id = 6\<rparr> [''loss'' \<mapsto> 5, ''epoch'' \<mapsto> 2] = Delegated"
    by (simp add: verdict_of_def example_on_trial_result_continue)
       (simp add: example_state_def example_scheduler_def)
  show ?thesis
    using v delegation_passes_result [OF v]
    by (simp add: example_state_def example_scheduler_def)
qed

subsection \<open>The sequences stay sorted\<close>

lemma np_insert_sort:
  assumes "sorted a"
  shows "np_insert a (np_searchsorted a v) v = sort (a @ [v])"
proof -
  have "mset (np_insert a (np_searchsorted a v) v) = mset (a @ [v])"
    by (simp add: mset_np_insert)
  then show ?thesis
    using sorted_np_insert [OF assms, of v] by (metis properties_for_sort)
qed

lemma sort_sort_append:
  "sort (sort xs @ ys) = sort (xs @ (ys :: real list))"
  by (rule properties_for_sort) simp_all

lemma on_trial_result_sorted_results:
  "dd_get (sorted_results (snd (on_trial_result self trial result))) level =
     (case record_result self trial result of
        Inl e \<Rightarrow> dd_get (sorted_results self) level
      | Inr (t, v, i, r, s2) \<Rightarrow>
          if t = level
          then np_insert (dd_get (sorted_results self) level)
                 (np_searchsorted (dd_get (sorted_results self) level) v) v
          else dd_get (sorted_results self) level)"
proof (cases "record_result self trial result")
  case (Inl e)
  then show ?thesis by (simp add: on_trial_result_Inl)
next
  case (Inr p)
  obtain t v i r s2 where p: "p = (t, v, i, r, s2)" by (cases p) auto
  note rec = Inr [unfolded p]
  have "sorted_results (snd (on_trial_result self trial result)) = sorted_results s2"
    using rec by (simp add: on_trial_result_def case_prod_unfold)
  then show ?thesis
    using rec record_result_sorted_results [OF rec, of level] by auto
qed

lemma on_trial_result_keeps_sorted:
  assumes "\<forall>l. sorted (dd_get (sorted_results self) l)"
  shows "\<forall>l. sorted (dd_get (sorted_results (snd (on_trial_result self trial result))) l)"
  using assms
  by (auto simp: on_trial_result_sorted_results sorted_np_insert split: sum.splits)

lemma run_sorted_results:
  assumes "\<forall>l. sorted (dd_get (sorted_results self) l)"
  shows "dd_get (sorted_results (run self reports)) level
           = sort (dd_get (sorted_results self) level @ inserted_values self level reports)"
  using assms
proof (induction reports arbitrary: self)
  case Nil
  then show ?case by (simp add: sorted_sort_id)
next
  case (Cons report reports)
  obtain trial result where report: "report = (trial, result)" by (cases report)
  let ?next = "snd (on_trial_result self trial result)"
  let ?old = "dd_get (sorted_results self) level"
  let ?new = "(case record_result self trial result of
                 Inl e \<Rightarrow> []
               | Inr (time_step, new_metric, index, normalized_rank, self2) \<Rightarrow>
                   if time_step = level then [new_metric] else [])"
  have step: "dd_get (sorted_results ?next) level = sort (?old @ ?new)"
    using Cons.prems
    by (auto simp: on_trial_result_sorted_results np_insert_sort sorted_sort_id
        split: sum.splits)
  have "dd_get (sorted_results (run ?next reports)) level
          = sort (dd_get (sorted_results ?next) level @ inserted_values ?next level reports)"
    by (rule Cons.IH) (rule on_trial_result_keeps_sorted [OF Cons.prems])
  also have "\<dots> = sort ((?old @ ?new) @ inserted_values ?next level reports)"
    by (simp only: step sort_sort_append)
  finally show ?case by (simp add: report)
qed

lemma foldl_insert_sort:
  assumes "sorted a"
  shows "foldl (\<lambda>a v. np_insert a (np_searchsorted a v) v) a vs = sort (a @ vs)"
  using assms
proof (induction vs arbitrary: a)
  case Nil
  then show ?case by (simp add: sorted_sort_id)
next
  case (Cons v vs)
  have "foldl (\<lambda>a v. np_insert a (np_searchsorted a v) v) (sort (a @ [v])) vs
          = sort (sort (a @ [v]) @ vs)"
    using Cons.IH [of "sort (a @ [v])"] by simp
  then show ?case
    using Cons.prems by (simp add: np_insert_sort sort_sort_append)
qed

lemma init_fields:
  assumes "MedianStoppingRule_init sch ra b mt gt gp rc = Inr self0"
  shows "sorted_results self0 = Map.empty" "trial_to_results self0 = Map.empty"
    "running_average self0 = b" "rank_cutoff self0 = rc" "grace_time self0 = gt"
    "min_samples_required self0 = gp" "resource_attr self0 = ra"
  using assms
  by (auto simp: MedianStoppingRule_init_def Let_def split: prod.splits sum.splits)

lemma example_init:
  "MedianStoppingRule_init (example_scheduler m) ''epoch'' b (Some ''loss'') (Some 1) (Some 5)
     (1 / 2) = Inr (example_initial m b)"
  unfolding init_Inr [OF example_metric_mode]
  by (simp add: example_initial_def example_scheduler_def)

text \<open>
  Claim C3. From construction on, after every sequence of \<^verbatim>\<open>on_trial_result\<close> calls and
  for every resource level, the recorded sequence of the level is sorted ascending;
  it is the sorted list of the values the calls inserted at that level, and inserting
  values one at a time by \<^verbatim>\<open>searchsorted\<close> and \<^verbatim>\<open>insert\<close> gives the same list as sorting
  them at once.
\<close>

theorem sorted_results_sorted:
  assumes "MedianStoppingRule_init sch ra b mt gt gp rc = Inr self0"
  shows "sorted (dd_get (sorted_results (run self0 reports)) level)
         \<and> dd_get (sorted_results (run self0 reports)) level
             = sort (inserted_values self0 level reports)
         \<and> foldl (\<lambda>a v. np_insert a (np_searchsorted a v) v) [] vs = sort vs"
proof -
  have "\<forall>l. sorted (dd_get (sorted_results self0) l)"
    by (simp add: init_fields(1) [OF assms] dd_get_def)
  then have "dd_get (sorted_results (run self0 reports)) level
               = sort (dd_get (sorted_results self0) level @ inserted_values self0 level reports)"
    by (rule run_sorted_results)
  then have eq: "dd_get (sorted_results (run self0 reports)) level
               = sort (inserted_values self0 level reports)"
    by (simp add: init_fields(1) [OF assms] dd_get_def)
  show ?thesis
    using eq foldl_insert_sort [of "[]" vs] by simp
qed

theorem sorted_results_sorted_witness:
  "sorted (dd_get (sorted_results (run (example_initial ''min'' True) example_reports)) 2)
   \<and> dd_get (sorted_results (run (example_initial ''min'' True) example_reports)) 2
       = sort (inserted_values (example_initial ''min'' True) 2 example_reports)
   \<and> foldl (\<lambda>a v. np_insert a (np_searchsorted a v) v) [] [3, 1, 2] = [1, 2, 3]"
  using sorted_results_sorted [OF example_init, of "''min''" True example_reports 2 "[3, 1, 2]"]
  by simp

subsection \<open>The running average\<close>

lemma on_trial_result_frame_all:
  "metric (snd (on_trial_result self trial result)) = metric self
   \<and> mode (snd (on_trial_result self trial result)) = mode self
   \<and> resource_attr (snd (on_trial_result self trial result)) = resource_attr self
   \<and> running_average (snd (on_trial_result self trial result)) = running_average self
   \<and> rank_cutoff (snd (on_trial_result self trial result)) = rank_cutoff self
   \<and> grace_time (snd (on_trial_result self trial result)) = grace_time self
   \<and> min_samples_required (snd (on_trial_result self trial result)) = min_samples_required self"
proof (cases "record_result self trial result")
  case (Inl e)
  then show ?thesis by (simp add: on_trial_result_Inl)
next
  case (Inr p)
  obtain t v i r s2 where p: "p = (t, v, i, r, s2)" by (cases p) auto
  note rec = Inr [unfolded p]
  show ?thesis
    using rec record_result_frame [OF rec]
    by (simp add: on_trial_result_def case_prod_unfold)
qed

lemma on_trial_result_frame:
  "metric (snd (on_trial_result self trial result)) = metric self"
  "mode (snd (on_trial_result self trial result)) = mode self"
  "resource_attr (snd (on_trial_result self trial result)) = resource_attr self"
  "running_average (snd (on_trial_result self trial result)) = running_average self"
  "rank_cutoff (snd (on_trial_result self trial result)) = rank_cutoff self"
  "grace_time (snd (on_trial_result self trial result)) = grace_time self"
  "min_samples_required (snd (on_trial_result self trial result)) = min_samples_required self"
  using on_trial_result_frame_all [of self trial result] by simp_all

lemma run_frame:
  "metric (run self reports) = metric self"
  "mode (run self reports) = mode self"
  "resource_attr (run self reports) = resource_attr self"
  "running_average (run self reports) = running_average self"
  "rank_cutoff (run self reports) = rank_cutoff self"
  "grace_time (run self reports) = grace_time self"
  "min_samples_required (run self reports) = min_samples_required self"
  by (induction self reports rule: run.induct) (simp_all add: on_trial_result_frame)

lemma own_report_cong:
  "metric s' = metric s \<Longrightarrow> resource_attr s' = resource_attr s \<Longrightarrow> mode s' = mode s
     \<Longrightarrow> own_report s' tid report = own_report s tid report"
  by (auto simp: own_report_def split: option.splits)

lemma own_reports_cong:
  assumes "metric s' = metric s" and "resource_attr s' = resource_attr s" and "mode s' = mode s"
  shows "own_reports s' tid reports = own_reports s tid reports"
proof -
  have "own_report s' tid = own_report s tid"
    by (rule ext) (rule own_report_cong [OF assms])
  then show ?thesis by (simp add: own_reports_def)
qed

lemma own_reports_Cons:
  "own_reports s tid (report # reports) =
     (case own_report s tid report of None \<Rightarrow> [] | Some x \<Rightarrow> [x]) @ own_reports s tid reports"
  by (simp add: own_reports_def List.map_filter_simps split: option.splits)

lemma own_reports_snoc:
  "own_reports s tid (reports @ [report]) =
     own_reports s tid reports @ (case own_report s tid report of None \<Rightarrow> [] | Some x \<Rightarrow> [x])"
  by (simp add: own_reports_def List.map_filter_def split: option.splits)

lemma record_result_Inl:
  assumes "record_result self trial result = Inl e"
  shows "(case metric self of None \<Rightarrow> None | Some k \<Rightarrow> result k) = None
         \<or> result (resource_attr self) = None"
  using assms by (auto simp: record_result_def case_prod_unfold split: option.splits)

lemma on_trial_result_history:
  "dd_get (trial_to_results (snd (on_trial_result self trial result))) tid =
     (if running_average self
      then dd_get (trial_to_results self) tid
           @ (case own_report self tid (trial, result) of None \<Rightarrow> [] | Some x \<Rightarrow> [x])
      else dd_get (trial_to_results self) tid)"
proof (cases "record_result self trial result")
  case (Inl e)
  then have "own_report self tid (trial, result) = None"
    using record_result_Inl [OF Inl] by (auto simp: own_report_def split: option.splits)
  with Inl show ?thesis by (simp add: on_trial_result_Inl)
next
  case (Inr p)
  obtain t v i r s2 where p: "p = (t, v, i, r, s2)" by (cases p) auto
  note rec = Inr [unfolded p]
  have st: "trial_to_results (snd (on_trial_result self trial result)) = trial_to_results s2"
    using rec by (simp add: on_trial_result_def case_prod_unfold)
  obtain k raw where k: "metric self = Some k" "result k = Some raw"
    and s2: "trial_to_results s2 =
               (if running_average self
                then (trial_to_results self)(trial_id trial \<mapsto>
                       dd_get (trial_to_results self) (trial_id trial)
                       @ [sign_adjust (mode self) raw])
                else trial_to_results self)"
    using record_result_Inr(1) [OF rec] by auto
  have own: "own_report self tid (trial, result) =
               (if trial_id trial = tid then Some (sign_adjust (mode self) raw) else None)"
    using k record_result_Inr(2) [OF rec] by (simp add: own_report_def)
  show ?thesis
    by (simp add: st s2 own dd_get_def)
qed

lemma run_history:
  "dd_get (trial_to_results (run self reports)) tid =
     (if running_average self
      then dd_get (trial_to_results self) tid @ own_reports self tid reports
      else dd_get (trial_to_results self) tid)"
proof (induction reports arbitrary: self)
  case Nil
  then show ?case by (simp add: own_reports_def List.map_filter_simps)
next
  case (Cons report reports)
  obtain trial result where report: "report = (trial, result)" by (cases report)
  let ?next = "snd (on_trial_result self trial result)"
  have own: "own_reports ?next tid reports = own_reports self tid reports"
    by (rule own_reports_cong) (simp_all add: on_trial_result_frame)
  show ?case
    using Cons.IH [of ?next]
    by (simp add: report own on_trial_result_frame on_trial_result_history own_reports_Cons)
qed

text \<open>
  Claim C4. From construction on, at a report of a trial that reaches the insertion,
  the value that is searched for, inserted and ranked is, with \<^verbatim>\<open>running_average\<close>, the
  arithmetic mean of all sign-adjusted raw values the trial has reported so far, this
  report included (its first k reports at the k-th), and without it the sign-adjusted
  raw value of this report.
\<close>

theorem running_average_value:
  assumes "MedianStoppingRule_init sch ra b mt gt gp rc = Inr self0"
    and "record_result (run self0 reports) trial result
           = Inr (time_step, new_metric, index, normalized_rank, self2)"
  shows "(\<exists>k raw. metric self0 = Some k \<and> result k = Some raw
            \<and> own_reports self0 (trial_id trial) (reports @ [(trial, result)])
                = own_reports self0 (trial_id trial) reports @ [sign_adjust (mode self0) raw]
            \<and> new_metric =
                (if b
                 then sum_list (own_reports self0 (trial_id trial) (reports @ [(trial, result)]))
                      / real (length (own_reports self0 (trial_id trial)
                                        (reports @ [(trial, result)])))
                 else sign_adjust (mode self0) raw))
         \<and> index = np_searchsorted (dd_get (sorted_results (run self0 reports)) time_step)
                      new_metric
         \<and> dd_get (sorted_results self2) time_step
             = np_insert (dd_get (sorted_results (run self0 reports)) time_step) index new_metric
         \<and> normalized_rank = real index / real (length (dd_get (sorted_results self2) time_step))"
proof -
  let ?s = "run self0 reports"
  let ?tid = "trial_id trial"
  note rec = assms(2)
  obtain k raw where k: "metric ?s = Some k" "result k = Some raw"
    and v: "new_metric = (if running_average ?s
                          then np_mean (dd_get (trial_to_results ?s) ?tid
                                        @ [sign_adjust (mode ?s) raw])
                          else sign_adjust (mode ?s) raw)"
    using record_result_Inr(1) [OF rec] by auto
  have own: "own_report self0 ?tid (trial, result) = Some (sign_adjust (mode self0) raw)"
    using k record_result_Inr(2) [OF rec] by (simp add: own_report_def run_frame)
  have snoc: "own_reports self0 ?tid (reports @ [(trial, result)])
                = own_reports self0 ?tid reports @ [sign_adjust (mode self0) raw]"
    by (simp add: own_reports_snoc own)
  have "dd_get (trial_to_results self0) ?tid = []"
    by (simp add: init_fields [OF assms(1)] dd_get_def)
  then have hist: "b \<Longrightarrow> dd_get (trial_to_results ?s) ?tid = own_reports self0 ?tid reports"
    by (simp add: run_history init_fields [OF assms(1)])
  have mean: "new_metric =
                (if b
                 then sum_list (own_reports self0 ?tid (reports @ [(trial, result)]))
                      / real (length (own_reports self0 ?tid (reports @ [(trial, result)])))
                 else sign_adjust (mode self0) raw)"
    using v hist by (simp add: run_frame init_fields [OF assms(1)] snoc np_mean_def)
  have idx: "index = np_searchsorted (dd_get (sorted_results ?s) time_step) new_metric"
    by (rule record_result_Inr(3) [OF rec])
  have ins: "dd_get (sorted_results self2) time_step
               = np_insert (dd_get (sorted_results ?s) time_step) index new_metric"
    using record_result_sorted_results [OF rec, of time_step] idx by simp
  have rank: "normalized_rank = real index / real (length (dd_get (sorted_results self2) time_step))"
    using record_result_Inr(4) [OF rec] by (simp add: ins length_np_insert)
  show ?thesis
    using k snoc mean idx ins rank by (auto simp: run_frame)
qed


lemma searchsorted_empty: "np_searchsorted [] v = 0"
  by (simp add: np_searchsorted_def searchsorted_loop.simps)

lemma example_first_record:
  "record_result (example_initial ''max'' True) \<lparr>trial_id = 1\<rparr> [''loss'' \<mapsto> 4, ''epoch'' \<mapsto> 1]
     = Inr (1, - 4, 0, 0,
            (example_initial ''max'' True)
              \<lparr>sorted_results := [1 \<mapsto> [- 4]], trial_to_results := [1 \<mapsto> [- 4]]\<rparr>)"
  by (subst record_result_eq [where k = "''loss''" and raw = 4 and t = 1])
     (simp_all add: example_initial_def sign_adjust_def dd_get_def np_mean_def
       searchsorted_empty np_insert_def Let_def)

lemma example_first_run:
  "run (example_initial ''max'' True) [(\<lparr>trial_id = 1\<rparr>, [''loss'' \<mapsto> 4, ''epoch'' \<mapsto> 1])]
     = (example_initial ''max'' True)
         \<lparr>sorted_results := [1 \<mapsto> [- 4]],
          trial_to_results := [1 \<mapsto> [- 4]],
          scheduler := (example_scheduler ''max'')
            \<lparr>sched_state := 1,
             sched_calls := [Call_metric_mode,
                             Call_on_trial_result \<lparr>trial_id = 1\<rparr>
                               [''loss'' \<mapsto> 4, ''epoch'' \<mapsto> 1]]\<rparr>\<rparr>"
  by (simp add: on_trial_result_def example_first_record grace_condition_def)
     (simp add: example_initial_def dd_get_def sched_on_trial_result_def example_scheduler_def)

lemma example_second_record:
  "record_result
     (run (example_initial ''max'' True) [(\<lparr>trial_id = 1\<rparr>, [''loss'' \<mapsto> 4, ''epoch'' \<mapsto> 1])])
     \<lparr>trial_id = 1\<rparr> [''loss'' \<mapsto> 2, ''epoch'' \<mapsto> 2]
     = Inr (2, - 3, 0, 0,
            (run (example_initial ''max'' True)
               [(\<lparr>trial_id = 1\<rparr>, [''loss'' \<mapsto> 4, ''epoch'' \<mapsto> 1])])
              \<lparr>sorted_results := [1 \<mapsto> [- 4], 2 \<mapsto> [- 3]],
               trial_to_results := [1 \<mapsto> [- 4, - 2]]\<rparr>)"
  unfolding example_first_run
  by (subst record_result_eq [where k = "''loss''" and raw = 2 and t = 2])
     (simp_all add: example_initial_def sign_adjust_def dd_get_def np_mean_def
       searchsorted_empty np_insert_def Let_def)

lemma example_own_reports:
  "own_reports (example_initial ''max'' True) 1
     [(\<lparr>trial_id = 1\<rparr>, [''loss'' \<mapsto> 4, ''epoch'' \<mapsto> 1]),
      (\<lparr>trial_id = 1\<rparr>, [''loss'' \<mapsto> 2, ''epoch'' \<mapsto> 2])] = [- 4, - 2]"
  by (simp add: own_reports_def List.map_filter_simps own_report_def example_initial_def
      sign_adjust_def)

theorem running_average_value_witness:
  "own_reports (example_initial ''max'' True) 1
     [(\<lparr>trial_id = 1\<rparr>, [''loss'' \<mapsto> 4, ''epoch'' \<mapsto> 1]),
      (\<lparr>trial_id = 1\<rparr>, [''loss'' \<mapsto> 2, ''epoch'' \<mapsto> 2])] = [- 4, - 2]
   \<and> fst (snd (projr (record_result
        (run (example_initial ''max'' True)
           [(\<lparr>trial_id = 1\<rparr>, [''loss'' \<mapsto> 4, ''epoch'' \<mapsto> 1])])
        \<lparr>trial_id = 1\<rparr> [''loss'' \<mapsto> 2, ''epoch'' \<mapsto> 2]))) = - 3
   \<and> (- 3 :: real) = sum_list [- 4, - 2] / real (length [- 4, - 2 :: real])"
  using running_average_value [OF example_init example_second_record]
  by (simp add: example_second_record example_own_reports del: run.simps)

subsection \<open>The rank of the best trial under mode max\<close>

lemma searchsorted_loop_least:
  assumes "\<forall>x\<in>set arr. key \<le> x" and "hi \<le> length arr" and "lo = 0"
  shows "searchsorted_loop arr key lo hi = 0"
  using assms
proof (induction arr key lo hi rule: searchsorted_loop.induct)
  case (1 arr key min_idx max_idx)
  show ?case
  proof (cases "min_idx < max_idx")
    case False
    then show ?thesis using "1.prems"(3) by (simp add: searchsorted_loop_done)
  next
    case True
    define mid where "mid = min_idx + (max_idx - min_idx) div 2"
    have mid: "mid < max_idx" "mid < length arr"
      using True "1.prems"(2) by (auto simp: mid_def)
    then have ge: "\<not> arr ! mid < key"
      using "1.prems"(1) by (auto simp: not_less)
    have "searchsorted_loop arr key min_idx max_idx = searchsorted_loop arr key min_idx mid"
      using searchsorted_loop_right [OF True] ge by (simp add: mid_def)
    also have "\<dots> = 0"
      using "1.IH"(2) [OF True mid_def ge "1.prems"(1) _ "1.prems"(3)] mid by simp
    finally show ?thesis .
  qed
qed

lemma np_searchsorted_least:
  "\<forall>x\<in>set a. v \<le> x \<Longrightarrow> np_searchsorted a v = 0"
  by (simp add: np_searchsorted_def searchsorted_loop_least)


lemma example_max_record:
  "record_result example_max_state \<lparr>trial_id = 4\<rparr> [''accuracy'' \<mapsto> 5, ''epoch'' \<mapsto> 2]
     = Inr (2, - 5, 0, 0, example_max_state\<lparr>sorted_results := [2 \<mapsto> [- 5, - 3, - 2, - 1]]\<rparr>)"
  by (subst record_result_eq [where k = "''accuracy''" and raw = 5 and t = 2])
     (simp_all add: example_max_state_def sign_adjust_def dd_get_def np_searchsorted_least
       np_insert_def Let_def)

text \<open>
  Claim C5, as the spec states it, gives the normalised rank 1 to a trial whose raw
  metric is above all siblings under mode \<^verbatim>\<open>"max"\<close>. With the siblings 3, 2 and 1
  recorded (negated) at level 2, the report 5 is negated to \<open>- 5\<close>, inserted at index
  0 and ranked 0.
\<close>

theorem max_mode_best_rank_counterexample:
  "mode example_max_state = ''max''
   \<and> dd_get (sorted_results example_max_state) 2 = [- 3, - 2, - 1]
   \<and> record_result example_max_state \<lparr>trial_id = 4\<rparr> [''accuracy'' \<mapsto> 5, ''epoch'' \<mapsto> 2]
       = Inr (2, - 5, 0, 0, example_max_state\<lparr>sorted_results := [2 \<mapsto> [- 5, - 3, - 2, - 1]]\<rparr>)
   \<and> fst (snd (snd (snd (projr (record_result example_max_state \<lparr>trial_id = 4\<rparr>
                                    [''accuracy'' \<mapsto> 5, ''epoch'' \<mapsto> 2]))))) \<noteq> 1"
  by (simp add: example_max_record) (simp add: example_max_state_def dd_get_def)

text \<open>
  Claim C5, amended. Under mode \<^verbatim>\<open>"max"\<close>, a report whose raw metric is above every
  sibling value recorded at its resource level (the recorded values negated back),
  made without running average or as the first report of its trial, is negated,
  inserted at index 0, the start of the ascending sequence, and has the normalised
  rank 0.
\<close>

theorem max_mode_best_rank:
  assumes "mode self = ''max''"
    and "record_result self trial result
           = Inr (time_step, new_metric, index, normalized_rank, self2)"
    and "metric self = Some k" and "result k = Some raw"
    and "\<not> running_average self \<or> dd_get (trial_to_results self) (trial_id trial) = []"
    and "\<forall>x\<in>set (dd_get (sorted_results self) time_step). - x < raw"
  shows "new_metric = - raw \<and> index = 0 \<and> normalized_rank = 0
         \<and> dd_get (sorted_results self2) time_step
             = (- raw) # dd_get (sorted_results self) time_step"
proof -
  note rec = assms(2)
  have v: "new_metric = - raw"
    using record_result_Inr(1) [OF rec] assms(1,3,4,5)
    by (auto simp: sign_adjust_def np_mean_def)
  have "\<forall>x\<in>set (dd_get (sorted_results self) time_step). new_metric \<le> x"
    using assms(6) v by auto
  then have i: "index = 0"
    using record_result_Inr(3) [OF rec] by (simp add: np_searchsorted_least)
  have r: "normalized_rank = 0"
    using record_result_Inr(4) [OF rec] i by simp
  have "dd_get (sorted_results self2) time_step
          = np_insert (dd_get (sorted_results self) time_step) index new_metric"
    using record_result_sorted_results [OF rec, of time_step] record_result_Inr(3) [OF rec]
    by simp
  then show ?thesis using v i r by (simp add: np_insert_def)
qed

theorem max_mode_best_rank_witness:
  "fst (snd (snd (snd (projr (record_result example_max_state \<lparr>trial_id = 4\<rparr>
                                 [''accuracy'' \<mapsto> 5, ''epoch'' \<mapsto> 2]))))) = 0
   \<and> dd_get [2 \<mapsto> [- 5, - 3, - 2, - 1 :: real]] (2 :: real) = [- 5, - 3, - 2, - 1]"
proof -
  have "mode example_max_state = ''max''" "metric example_max_state = Some ''accuracy''"
    "[''accuracy'' \<mapsto> 5 :: real, ''epoch'' \<mapsto> 2] ''accuracy'' = Some 5"
    "\<not> running_average example_max_state
       \<or> dd_get (trial_to_results example_max_state) (trial_id \<lparr>trial_id = 4\<rparr>) = []"
    "\<forall>x\<in>set (dd_get (sorted_results example_max_state) 2). - x < 5"
    by (simp_all add: example_max_state_def dd_get_def)
  from max_mode_best_rank [OF this(1) example_max_record this(2-5)]
  show ?thesis by (simp add: example_max_record dd_get_def)
qed


subsection \<open>What the verdict depends on\<close>

lemma verdict_of_record:
  "verdict_of self trial result =
     (case record_result self trial result of
        Inl e \<Rightarrow> Raised
      | Inr (t, v, i, r, s2) \<Rightarrow>
          if grace_condition s2 t \<or> r \<le> rank_cutoff s2 then Delegated else Stopped)"
proof (cases "record_result self trial result")
  case (Inl e)
  then show ?thesis by (simp add: verdict_of_def on_trial_result_Inl)
next
  case (Inr p)
  obtain t v i r s2 where p: "p = (t, v, i, r, s2)" by (cases p) auto
  note rec = Inr [unfolded p]
  show ?thesis
    using rec record_result_frame(1) [OF rec]
    by (simp add: verdict_of_def on_trial_result_def sched_on_trial_result_def case_prod_unfold)
qed













subsection \<open>The scenario of the spec\<close>

lemma run_append: "run self (reports @ later) = run (run self reports) later"
  by (induction self reports rule: run.induct) simp_all

lemma scenario_nth:
  "n < 5 \<Longrightarrow> scenario_reports ! n = (\<lparr>trial_id = int (Suc n)\<rparr>, [''loss'' \<mapsto> 10, ''epoch'' \<mapsto> 2])"
  by (simp add: scenario_reports_def)

lemma scenario_take_Suc:
  "n < 5 \<Longrightarrow> take (Suc n) scenario_reports
     = take n scenario_reports @ [(\<lparr>trial_id = int (Suc n)\<rparr>, [''loss'' \<mapsto> 10, ''epoch'' \<mapsto> 2])]"
  using take_Suc_conv_app_nth [of n scenario_reports] scenario_nth [of n]
  by (simp add: scenario_reports_def)

lemma scenario_own_reports:
  assumes "n < tid"
  shows "own_reports self (int tid) (take n scenario_reports) = []"
proof -
  have "\<forall>report\<in>set (take n scenario_reports). own_report self (int tid) report = None"
  proof
    fix report assume "report \<in> set (take n scenario_reports)"
    then obtain j where "j < n" and "j < 5" and "report = scenario_reports ! j"
      by (auto simp: in_set_conv_nth scenario_reports_def)
    then have "trial_id (fst report) = int (Suc j)"
      using scenario_nth [of j] by simp
    then show "own_report self (int tid) report = None"
      using \<open>j < n\<close> assms by (auto simp: own_report_def split: option.splits)
  qed
  then show ?thesis
    by (simp add: own_reports_def List.map_filter_def filter_empty_conv)
qed

lemma replicate_least: "np_searchsorted (replicate n v) v = 0"
  by (simp add: np_searchsorted_least)

lemma scenario_step:
  assumes "metric s = Some ''loss''" and "resource_attr s = ''epoch''" and "mode s = ''min''"
    and "dd_get (sorted_results s) 2 = replicate n 10"
    and "running_average s \<longrightarrow> dd_get (trial_to_results s) tid = []"
  shows "\<exists>s2. record_result s \<lparr>trial_id = tid\<rparr> [''loss'' \<mapsto> 10, ''epoch'' \<mapsto> 2]
                 = Inr (2, 10, 0, 0, s2)"
proof -
  have "record_result s \<lparr>trial_id = tid\<rparr> [''loss'' \<mapsto> 10, ''epoch'' \<mapsto> 2]
          = Inr (2, 10, 0, 0,
                 s\<lparr>sorted_results := (sorted_results s)(2 \<mapsto> 10 # replicate n 10),
                   trial_to_results :=
                     (if running_average s then (trial_to_results s)(tid \<mapsto> [10])
                      else trial_to_results s)\<rparr>)"
    using assms(3-5)
    by (subst record_result_eq [where k = "''loss''" and raw = 10 and t = 2])
       (simp_all add: assms(1,2) sign_adjust_def np_mean_def Let_def replicate_least
         np_insert_def)
  then show ?thesis by blast
qed

lemma scenario_config:
  assumes "MedianStoppingRule_init sch ''epoch'' b (Some ''loss'') (Some 1) (Some 5) (1 / 2)
             = Inr self0"
  shows "metric (run self0 reports) = Some ''loss''"
    "resource_attr (run self0 reports) = ''epoch''"
    "rank_cutoff (run self0 reports) = 1 / 2"
    "grace_time (run self0 reports) = Some 1"
    "min_samples_required (run self0 reports) = Some 5"
proof -
  have "metric self0 = Some ''loss''"
    using assms
    by (auto simp: MedianStoppingRule_init_def Let_def split: prod.splits sum.splits)
  then show "metric (run self0 reports) = Some ''loss''"
    "resource_attr (run self0 reports) = ''epoch''"
    "rank_cutoff (run self0 reports) = 1 / 2"
    "grace_time (run self0 reports) = Some 1"
    "min_samples_required (run self0 reports) = Some 5"
    by (simp_all add: run_frame init_fields [OF assms])
qed

lemma scenario_history:
  assumes "MedianStoppingRule_init sch ''epoch'' b (Some ''loss'') (Some 1) (Some 5) (1 / 2)
             = Inr self0"
    and "n < tid"
  shows "dd_get (trial_to_results (run self0 (take n scenario_reports))) (int tid) = []"
proof -
  have "dd_get (trial_to_results self0) (int tid) = []"
    by (simp add: init_fields [OF assms(1)] dd_get_def)
  then show ?thesis
    using scenario_own_reports [OF assms(2), of self0] by (simp add: run_history)
qed

lemma scenario_record:
  assumes "MedianStoppingRule_init sch ''epoch'' b (Some ''loss'') (Some 1) (Some 5) (1 / 2)
             = Inr self0"
    and "mode self0 = ''min''"
    and "dd_get (sorted_results (run self0 (take n scenario_reports))) 2 = replicate n 10"
  shows "\<exists>s2. record_result (run self0 (take n scenario_reports)) \<lparr>trial_id = int (Suc n)\<rparr>
                 [''loss'' \<mapsto> 10, ''epoch'' \<mapsto> 2] = Inr (2, 10, 0, 0, s2)"
proof -
  let ?s = "run self0 (take n scenario_reports)"
  have m: "mode ?s = ''min''"
    by (simp add: run_frame assms(2))
  have h: "running_average ?s \<longrightarrow> dd_get (trial_to_results ?s) (int (Suc n)) = []"
    using scenario_history [OF assms(1), of n "Suc n"] by simp
  show ?thesis
    by (rule scenario_step [OF scenario_config(1,2) [OF assms(1)] m assms(3) h])
qed

lemma scenario_prefix:
  assumes "MedianStoppingRule_init sch ''epoch'' b (Some ''loss'') (Some 1) (Some 5) (1 / 2)
             = Inr self0"
    and "mode self0 = ''min''" and "n \<le> 5"
  shows "dd_get (sorted_results (run self0 (take n scenario_reports))) 2 = replicate n 10"
  using assms(3)
proof (induction n)
  case 0
  then show ?case by (simp add: init_fields(1) [OF assms(1)] dd_get_def)
next
  case (Suc n)
  let ?s = "run self0 (take n scenario_reports)"
  let ?trial = "\<lparr>trial_id = int (Suc n)\<rparr>"
  let ?result = "[''loss'' \<mapsto> 10 :: real, ''epoch'' \<mapsto> 2]"
  have n: "n < 5" using Suc.prems by simp
  have old: "dd_get (sorted_results ?s) 2 = replicate n 10"
    using Suc.IH n by simp
  obtain s2 where rec: "record_result ?s ?trial ?result = Inr (2, 10, 0, 0, s2)"
    using scenario_record [OF assms(1,2) old] by blast
  have next_state:
    "run self0 (take (Suc n) scenario_reports) = snd (on_trial_result ?s ?trial ?result)"
    by (simp add: scenario_take_Suc [OF n] run_append)
  have "dd_get (sorted_results (snd (on_trial_result ?s ?trial ?result))) 2
          = np_insert (replicate n 10) (np_searchsorted (replicate n 10) 10) 10"
    unfolding on_trial_result_sorted_results rec old by simp
  then show ?case
    unfolding next_state by (simp add: replicate_least np_insert_def)
qed


text \<open>
  Claim C2. The wrapper is built with \<^verbatim>\<open>grace_population=5\<close>, \<^verbatim>\<open>grace_time=1\<close>,
  \<^verbatim>\<open>rank_cutoff=0.5\<close> around any scheduler of mode \<^verbatim>\<open>"min"\<close>, with or without running
  average. Trials 1 to 5 report the value 10 at level 2: each of the five calls
  delegates and returns what the wrapped scheduler returns. Trial 6 then reports 20
  at level 2: the value is inserted at index 5 of a sequence of final length 6, the
  normalised rank is 5/6, the grace condition, which counts the six values after the
  insertion, does not hold, and the call returns STOP.
\<close>

theorem scenario_sixth_trial_stopped:
  assumes "MedianStoppingRule_init sch ''epoch'' b (Some ''loss'') (Some 1) (Some 5) (1 / 2)
             = Inr self0"
    and "mode self0 = ''min''"
  shows "(\<forall>n<5. verdict_of (run self0 (take n scenario_reports))
                   (fst (scenario_reports ! n)) (snd (scenario_reports ! n)) = Delegated
              \<and> fst (on_trial_result (run self0 (take n scenario_reports))
                       (fst (scenario_reports ! n)) (snd (scenario_reports ! n)))
                  = fst (sched_on_trial_result (scheduler (run self0 (take n scenario_reports)))
                           (fst (scenario_reports ! n)) (snd (scenario_reports ! n))))
         \<and> (\<exists>self6. record_result (run self0 scenario_reports) \<lparr>trial_id = 6\<rparr>
                        [''loss'' \<mapsto> 20, ''epoch'' \<mapsto> 2] = Inr (2, 20, 5, 5 / 6, self6)
                \<and> dd_get (sorted_results self6) 2 = [10, 10, 10, 10, 10, 20]
                \<and> \<not> grace_condition self6 2
                \<and> on_trial_result (run self0 scenario_reports) \<lparr>trial_id = 6\<rparr>
                     [''loss'' \<mapsto> 20, ''epoch'' \<mapsto> 2] = (Inr STOP, self6))"
proof (intro conjI allI impI)
  fix n :: nat
  assume n: "n < 5"
  let ?s = "run self0 (take n scenario_reports)"
  let ?trial = "\<lparr>trial_id = int (Suc n)\<rparr>"
  let ?result = "[''loss'' \<mapsto> 10 :: real, ''epoch'' \<mapsto> 2]"
  have nth: "fst (scenario_reports ! n) = ?trial" "snd (scenario_reports ! n) = ?result"
    using scenario_nth [OF n] by simp_all
  have old: "dd_get (sorted_results ?s) 2 = replicate n 10"
    using scenario_prefix [OF assms, of n] n by simp
  obtain s2 where rec: "record_result ?s ?trial ?result = Inr (2, 10, 0, 0, s2)"
    using scenario_record [OF assms old] by blast
  have cutoff: "rank_cutoff s2 = 1 / 2"
    using record_result_frame(5) [OF rec] by (simp add: scenario_config [OF assms(1)])
  show "verdict_of ?s (fst (scenario_reports ! n)) (snd (scenario_reports ! n)) = Delegated"
    unfolding nth verdict_of_record rec by (simp add: cutoff)
  show "fst (on_trial_result ?s (fst (scenario_reports ! n)) (snd (scenario_reports ! n)))
          = fst (sched_on_trial_result (scheduler ?s)
                   (fst (scenario_reports ! n)) (snd (scenario_reports ! n)))"
    unfolding nth using on_trial_result_delegates [OF rec]
    by (simp add: scenario_config [OF assms(1)])
next
  let ?s = "run self0 scenario_reports"
  let ?trial = "\<lparr>trial_id = 6\<rparr>"
  let ?result = "[''loss'' \<mapsto> 20 :: real, ''epoch'' \<mapsto> 2]"
  let ?s6 = "snd (snd (snd (snd (projr (record_result ?s ?trial ?result)))))"
  have all: "take 5 scenario_reports = scenario_reports"
    by (simp add: scenario_reports_def)
  have old: "dd_get (sorted_results ?s) 2 = [10, 10, 10, 10, 10]"
    using scenario_prefix [OF assms, of 5, unfolded all]
    by (simp add: numeral_eq_Suc)
  have hist: "dd_get (trial_to_results ?s) 6 = []"
    using scenario_history [OF assms(1), of 5 6, unfolded all] by simp
  have config: "metric ?s = Some ''loss''" "?result ''loss'' = Some 20"
    "?result (resource_attr ?s) = Some 2"
    by (simp_all add: scenario_config [OF assms(1)])
  have rec: "record_result ?s ?trial ?result = Inr (2, 20, 5, 5 / 6, ?s6)"
    by (subst (1 2) record_result_eq [OF config])
       (simp add: old hist run_frame assms(2) sign_adjust_def np_mean_def Let_def
         searchsorted_example_last)
  have sorted6: "dd_get (sorted_results ?s6) 2 = [10, 10, 10, 10, 10, 20]"
    using record_result_sorted_results [OF rec, of 2]
    by (simp add: old searchsorted_example_last np_insert_def)
  have grace: "\<not> grace_condition ?s6 2"
    using record_result_frame [OF rec]
    by (simp add: grace_condition_def sorted6 scenario_config [OF assms(1)])
  have stop: "on_trial_result ?s ?trial ?result = (Inr STOP, ?s6)"
    using on_trial_result_stops [OF rec grace]
    by (simp add: scenario_config [OF assms(1)])
  show "\<exists>self6. record_result ?s ?trial ?result = Inr (2, 20, 5, 5 / 6, self6)
          \<and> dd_get (sorted_results self6) 2 = [10, 10, 10, 10, 10, 20]
          \<and> \<not> grace_condition self6 2
          \<and> on_trial_result ?s ?trial ?result = (Inr STOP, self6)"
    using rec sorted6 grace stop by blast
qed

lemma example_mode: "mode (example_initial m b) = m"
  by (simp add: example_initial_def)

theorem scenario_sixth_trial_stopped_witness:
  "fst (on_trial_result (run (example_initial ''min'' True) scenario_reports) \<lparr>trial_id = 6\<rparr>
          [''loss'' \<mapsto> 20, ''epoch'' \<mapsto> 2]) = Inr STOP
   \<and> verdict_of (run (example_initial ''min'' True) (take 4 scenario_reports))
        (fst (scenario_reports ! 4)) (snd (scenario_reports ! 4)) = Delegated"
  using scenario_sixth_trial_stopped [OF example_init example_mode, of True]
  by fastforce

end
